theory Spec2Isabelle
  imports Main
begin

section \<open>Host objects\<close>

text \<open>
  The two variants of the recorder, the render-prop component \<^verbatim>\<open>ReactMediaRecorder\<close>
  (index.ts) and the hook \<^verbatim>\<open>useReactMediaRecorder\<close>, are embedded as functions that
  pass the session state explicitly. Everything the host gives back asynchronously (the
  outcome of \<^verbatim>\<open>getUserMedia\<close> and \<^verbatim>\<open>getDisplayMedia\<close>, the recorder's events) is an
  argument of the function that awaits it or a function of its own (the event handler).
\<close>

datatype track_kind = audio_track | video_track

record MediaStreamTrack =
  track_id :: nat
  kind :: track_kind
  enabled :: bool

text \<open>
  A stream is the list of its tracks. The controller reaches track objects only through
  \<^verbatim>\<open>mediaStream.current\<close> and \<^verbatim>\<open>previewStream.current\<close>; the latter holds video tracks only and
  the only write to a track (\<^verbatim>\<open>audioTrack.enabled = !mute\<close>) goes to audio tracks, so tracks
  are kept by value.
\<close>

type_synonym MediaStream = "MediaStreamTrack list"

definition getAudioTracks :: "MediaStream \<Rightarrow> MediaStreamTrack list" where
  "getAudioTracks stream = filter (\<lambda>t. kind t = audio_track) stream"

definition getVideoTracks :: "MediaStream \<Rightarrow> MediaStreamTrack list" where
  "getVideoTracks stream = filter (\<lambda>t. kind t = video_track) stream"

text \<open>\<^verbatim>\<open>stream.addTrack(track)\<close>: a track already in the stream is not added again.\<close>

definition addTrack :: "MediaStream \<Rightarrow> MediaStreamTrack \<Rightarrow> MediaStream" where
  "addTrack stream t =
     (if track_id t \<in> set (map track_id stream) then stream else stream @ [t])"

record Blob =
  content :: string
  blob_type :: string

text \<open>\<^verbatim>\<open>new Blob(parts, {type})\<close>: the parts concatenated, under the given content type.\<close>

definition new_Blob :: "Blob list \<Rightarrow> string \<Rightarrow> Blob" where
  "new_Blob parts ty = \<lparr>content = concat (map content parts), blob_type = ty\<rparr>"

text \<open>A reference URL is the index of its blob in the host's registry of object URLs.\<close>

type_synonym url = nat

datatype RecordingState = rec_inactive | rec_recording | rec_paused

text \<open>
  The host's recorder, as far as the controller reads it: the state it reports. Its
  methods are taken to do what the platform documents for a call made in the right state
  (\<^verbatim>\<open>start\<close> leads to recording, \<^verbatim>\<open>pause\<close> to paused, \<^verbatim>\<open>resume\<close> to recording, \<^verbatim>\<open>stop\<close> to
  inactive); errors and data reach the controller as events.
\<close>

record MediaRecorder =
  state :: RecordingState

text \<open>
  \<^verbatim>\<open>audio?: boolean | MediaTrackConstraints\<close>: a flag, or a constraints object given by its
  keys (all that \<^verbatim>\<open>checkConstraints\<close> reads). An object is truthy, whatever its keys.
\<close>

datatype media_constraint = Flag bool | Constraints "string list"

fun truthy :: "media_constraint \<Rightarrow> bool" where
  "truthy (Flag b) = b"
| "truthy (Constraints ks) = True"

text \<open>\<^verbatim>\<open>video || true\<close>\<close>

definition or_true :: "media_constraint \<Rightarrow> media_constraint" where
  "or_true v = (if truthy v then v else Flag True)"

text \<open>\<^verbatim>\<open>typeof audio === 'boolean' ? !!audio : audio\<close>\<close>

fun required :: "media_constraint \<Rightarrow> media_constraint" where
  "required (Flag b) = Flag (\<not> \<not> b)"
| "required (Constraints ks) = Constraints ks"

record BlobPropertyBag =
  bag_type :: "string option"
  endings :: "string option"

record MediaRecorderOptions =
  mimeType :: "string option"

record props =
  audio :: media_constraint
  video :: media_constraint
  screen :: bool
  blobPropertyBag :: "BlobPropertyBag option"
  mediaRecorderOptions :: "MediaRecorderOptions option"

text \<open>The defaults of the destructured props (\<^verbatim>\<open>audio = true, video = false, ...\<close>).\<close>

definition default_props :: props where
  "default_props =
     \<lparr>audio = Flag True, video = Flag False, screen = False,
      blobPropertyBag = None, mediaRecorderOptions = None\<rparr>"

text \<open>What the browser offers: the globals and capability tables the setup effect reads.\<close>

record host =
  hasMediaRecorder :: bool
  hasGetDisplayMedia :: bool
  supportedConstraints :: "string list"
  supportedMimeTypes :: "string list"

text \<open>
  The outcome of an awaited host request: \<open>Inl name\<close> when the promise rejects with an
  error of that name, \<open>Inr stream\<close> when it resolves.
\<close>

type_synonym outcome = "string + MediaStream"

section \<open>Session state and effects\<close>

datatype StatusMessages =
    media_aborted | permission_denied | no_specified_media_found | media_in_use
  | invalid_media_constraints | no_constraints | recorder_error
  | idle | acquiring_media | delayed_start | recording | stopping | stopped

datatype diagnostic = UnsupportedConstraints "string list" | UnsupportedMimeType

text \<open>
  The calls the controller makes on the host and on its caller, and its writes to the
  status and error fields, in the order they are made.
\<close>

datatype effect =
    SetStatus StatusMessages
  | SetError string
  | GetDisplayMedia media_constraint
  | GetUserMedia "media_constraint option" "media_constraint option"
  | ConsoleError diagnostic
  | RecorderStart | RecorderPause | RecorderResume | RecorderStop
  | FallbackStart | FallbackStop
  | OnStop url

record session =
  mediaRecorder :: "MediaRecorder option"
  mediaChunks :: "Blob list"
  mediaStream :: "MediaStream option"
  status :: StatusMessages
  isAudioMuted :: bool
  mediaBlobUrl :: "url option"
  mediaBlob :: "Blob option"
  error :: string
  objectURLs :: "Blob list"
  trace :: "effect list"

definition setStatus :: "StatusMessages \<Rightarrow> 'a session_scheme \<Rightarrow> 'a session_scheme" where
  "setStatus st s = s\<lparr>status := st, trace := trace s @ [SetStatus st]\<rparr>"

definition setError :: "string \<Rightarrow> 'a session_scheme \<Rightarrow> 'a session_scheme" where
  "setError name s = s\<lparr>error := name, trace := trace s @ [SetError name]\<rparr>"

definition call :: "effect \<Rightarrow> 'a session_scheme \<Rightarrow> 'a session_scheme" where
  "call e s = s\<lparr>trace := trace s @ [e]\<rparr>"

text \<open>\<^verbatim>\<open>URL.createObjectURL(blob)\<close>: registers the blob and returns its fresh URL.\<close>

definition createObjectURL :: "Blob \<Rightarrow> 'a session_scheme \<Rightarrow> url \<times> 'a session_scheme" where
  "createObjectURL blob s = (length (objectURLs s), s\<lparr>objectURLs := objectURLs s @ [blob]\<rparr>)"

section \<open>The error table\<close>

text \<open>
  \<^verbatim>\<open>enum RecorderErrors\<close> compiles to an ordinary object with one own property per member.
  \<^verbatim>\<open>RecorderErrors[error]\<close> reads an own property when \<open>error\<close> is a member name, a property
  inherited from \<^verbatim>\<open>Object.prototype\<close> when it names one, and \<^verbatim>\<open>undefined\<close> otherwise.
\<close>

definition RecorderErrors :: "(string \<times> string) list" where
  "RecorderErrors =
     [(''AbortError'', ''media_aborted''),
      (''NotAllowedError'', ''permission_denied''),
      (''NotFoundError'', ''no_specified_media_found''),
      (''NotReadableError'', ''media_in_use''),
      (''OverconstrainedError'', ''invalid_media_constraints''),
      (''TypeError'', ''no_constraints''),
      (''NONE'', ''''),
      (''NO_RECORDER'', ''recorder_error'')]"

definition Object_prototype_keys :: "string list" where
  "Object_prototype_keys =
     [''constructor'', ''__defineGetter__'', ''__defineSetter__'', ''hasOwnProperty'',
      ''__lookupGetter__'', ''__lookupSetter__'', ''isPrototypeOf'',
      ''propertyIsEnumerable'', ''toString'', ''valueOf'', ''__proto__'',
      ''toLocaleString'']"

datatype js_value = JSUndefined | JSString string | JSInherited string

definition RecorderErrors_lookup :: "string \<Rightarrow> js_value" where
  "RecorderErrors_lookup name =
     (case map_of RecorderErrors name of
        Some code \<Rightarrow> JSString code
      | None \<Rightarrow> if name \<in> set Object_prototype_keys then JSInherited name else JSUndefined)"

text \<open>The \<^verbatim>\<open>error\<close> field both variants hand to their caller: \<^verbatim>\<open>RecorderErrors[error]\<close>.\<close>

definition exposed_error :: "'a session_scheme \<Rightarrow> js_value" where
  "exposed_error s = RecorderErrors_lookup (error s)"

section \<open>The render-prop variant (index.ts)\<close>

record rp_session = session +
  previewStream :: "MediaStream option"

text \<open>The initial values of the refs and state hooks.\<close>

definition initial :: rp_session where
  "initial =
     \<lparr>mediaRecorder = None, mediaChunks = [], mediaStream = None, status = idle,
      isAudioMuted = False, mediaBlobUrl = None, mediaBlob = None, error = ''NONE'',
      objectURLs = [], trace = [], previewStream = None\<rparr>"

text \<open>
  \<^verbatim>\<open>getMediaStream\<close>. \<open>display\<close> is the outcome of the \<^verbatim>\<open>getDisplayMedia\<close> request and \<open>user\<close>
  that of the \<^verbatim>\<open>getUserMedia\<close> request, should the call make them; an invocation makes at
  most one of each. The \<^verbatim>\<open>catch\<close> branch takes the name of whatever was thrown.
\<close>

definition getMediaStream :: "props \<Rightarrow> outcome \<Rightarrow> outcome \<Rightarrow> rp_session \<Rightarrow> rp_session" where
  "getMediaStream p display user s0 =
     (let s1 = setStatus acquiring_media s0;
          requiredMedia = (Some (required (audio p)), Some (required (video p)))
      in if screen p then
           (let s2 = call (GetDisplayMedia (or_true (video p))) s1
            in case display of
                 Inl name \<Rightarrow> setStatus idle (setError name s2)
               | Inr stream \<Rightarrow>
                   if truthy (audio p) then
                     (let s3 = call (GetUserMedia (Some (audio p)) None) s2
                      in case user of
                           Inl name \<Rightarrow> setStatus idle (setError name s3)
                         | Inr audioStream \<Rightarrow>
                             setStatus idle
                               (s3\<lparr>mediaStream :=
                                    Some (foldl addTrack stream (getAudioTracks audioStream))\<rparr>))
                   else setStatus idle (s2\<lparr>mediaStream := Some stream\<rparr>))
         else
           (let s2 = call (GetUserMedia (fst requiredMedia) (snd requiredMedia)) s1
            in case user of
                 Inl name \<Rightarrow> setStatus idle (setError name s2)
               | Inr stream \<Rightarrow>
                   setStatus idle
                     (s2\<lparr>mediaStream := Some stream,
                         previewStream := Some (getVideoTracks stream)\<rparr>)))"

datatype setup_error = UnsupportedBrowser | NoScreenCapture | ReferenceError

text \<open>
  \<^verbatim>\<open>checkConstraints\<close>: one console error naming the keys the host does not support. The
  test \<^verbatim>\<open>!supportedMediaConstraints[constraint]\<close> reads a property of an ordinary object, so
  a key is taken as supported when the host lists it or when it names a property every
  object inherits.
\<close>

definition checkConstraints :: "host \<Rightarrow> media_constraint \<Rightarrow> 'a session_scheme \<Rightarrow> 'a session_scheme" where
  "checkConstraints h mediaType s =
     (case mediaType of
        Flag b \<Rightarrow> s
      | Constraints ks \<Rightarrow>
          (let unSupportedConstraints =
                 filter (\<lambda>c. c \<notin> set (supportedConstraints h)
                              \<and> c \<notin> set Object_prototype_keys) ks
           in if length unSupportedConstraints > 0
              then call (ConsoleError (UnsupportedConstraints unSupportedConstraints)) s
              else s))"

text \<open>
  \<^verbatim>\<open>mediaRecorderOptions && mediaRecorderOptions.mimeType\<close>: the MIME type the check is
  made for, if any. An empty string is falsy.
\<close>

definition requested_mimeType :: "props \<Rightarrow> string option" where
  "requested_mimeType p =
     (case mediaRecorderOptions p of
        None \<Rightarrow> None
      | Some opts \<Rightarrow>
          (case mimeType opts of
             None \<Rightarrow> None
           | Some m \<Rightarrow> if m = [] then None else Some m))"

text \<open>
  The setup effect. Its two \<^verbatim>\<open>throw\<close> statements are the \<open>Inl\<close> results. The stream it
  loads (\<^verbatim>\<open>loadStream\<close>) is not awaited by the effect; the model runs the acquisition to
  its end with the outcomes given.
\<close>

definition useEffect :: "props \<Rightarrow> host \<Rightarrow> outcome \<Rightarrow> outcome \<Rightarrow> rp_session \<Rightarrow> setup_error + rp_session" where
  "useEffect p h display user s0 =
     (if \<not> hasMediaRecorder h then Inl UnsupportedBrowser
      else if screen p \<and> \<not> hasGetDisplayMedia h then Inl NoScreenCapture
      else
        (let s1 = checkConstraints h (audio p) s0;
             s2 = checkConstraints h (video p) s1;
             s3 = (case requested_mimeType p of
                     None \<Rightarrow> s2
                   | Some m \<Rightarrow>
                       if m \<notin> set (supportedMimeTypes h)
                       then call (ConsoleError UnsupportedMimeType) s2 else s2)
         in if mediaStream s3 = None then Inr (getMediaStream p display user s3)
            else Inr s3))"

text \<open>
  \<^verbatim>\<open>startRecording\<close>. The recorder is created on the stream, gets the three handlers below
  and is started, which puts it in the state \<^verbatim>\<open>recording\<close>.
\<close>

definition startRecording :: "props \<Rightarrow> outcome \<Rightarrow> outcome \<Rightarrow> rp_session \<Rightarrow> rp_session" where
  "startRecording p display user s0 =
     (let s1 = setError ''NONE'' s0;
          s2 = (if mediaStream s1 = None then getMediaStream p display user s1 else s1)
      in case mediaStream s2 of
           None \<Rightarrow> s2
         | Some stream \<Rightarrow>
             (let s3 = s2\<lparr>mediaChunks := []\<rparr>;
                  s4 = s3\<lparr>mediaBlobUrl := None\<rparr>;
                  s5 = s4\<lparr>mediaRecorder := Some \<lparr>state = rec_inactive\<rparr>\<rparr>;
                  s6 = call RecorderStart (s5\<lparr>mediaRecorder := Some \<lparr>state = rec_recording\<rparr>\<rparr>)
              in setStatus recording s6))"


definition onRecordingActive :: "Blob \<Rightarrow> rp_session \<Rightarrow> rp_session" where
  "onRecordingActive data s = s\<lparr>mediaChunks := mediaChunks s @ [data]\<rparr>"

text \<open>
  \<^verbatim>\<open>blobPropertyBag || video ? { type: 'video/mp4' } : { type: 'audio/wav' }\<close>: the
  conditional takes the whole disjunction as its test. A bag that is supplied is an
  object, hence truthy; what it holds is not read.
\<close>

definition blobProperty :: "props \<Rightarrow> string" where
  "blobProperty p =
     (if (case blobPropertyBag p of Some bag \<Rightarrow> True | None \<Rightarrow> truthy (video p))
      then ''video/mp4'' else ''audio/wav'')"

definition onRecordingStop :: "props \<Rightarrow> rp_session \<Rightarrow> rp_session" where
  "onRecordingStop p s0 =
     (let blob = new_Blob (mediaChunks s0) (blobProperty p);
          (url, s1) = createObjectURL blob s0;
          s2 = setStatus stopped s1;
          s3 = s2\<lparr>mediaBlobUrl := Some url\<rparr>;
          s4 = s3\<lparr>mediaBlob := Some blob\<rparr>
      in call (OnStop url) s4)"

definition muteAudio :: "bool \<Rightarrow> rp_session \<Rightarrow> rp_session" where
  "muteAudio mute s0 =
     (let s1 = s0\<lparr>isAudioMuted := mute\<rparr>
      in case mediaStream s1 of
           None \<Rightarrow> s1
         | Some stream \<Rightarrow>
             s1\<lparr>mediaStream :=
                  Some (map (\<lambda>t. if kind t = audio_track then t\<lparr>enabled := \<not> mute\<rparr> else t)
                          stream)\<rparr>)"

text \<open>\<^verbatim>\<open>stopRecording\<close>: the host's \<^verbatim>\<open>stop()\<close> leaves the recorder inactive.\<close>

definition stopRecording :: "rp_session \<Rightarrow> rp_session" where
  "stopRecording s0 =
     (case mediaRecorder s0 of
        None \<Rightarrow> s0
      | Some r \<Rightarrow>
          (let s1 = setStatus stopping s0
           in call RecorderStop (s1\<lparr>mediaRecorder := Some (r\<lparr>state := rec_inactive\<rparr>)\<rparr>)))"



section \<open>The hook variant\<close>

text \<open>
  Modelled from the spec: the encoder \<^verbatim>\<open>WebkitAudio\<close> of \<^verbatim>\<open>./polyfill\<close>, which the hook
  imports and which is not among the sources. The spec describes it as an alternate
  in-process audio-only encoder, substituted for start and stop, producing the same
  blob, URL and callback contract but only for audio. So: \<^verbatim>\<open>startRecording(cb)\<close> begins
  capturing and calls \<open>cb\<close>; \<^verbatim>\<open>stopRecording(cb)\<close> ends capturing and calls \<open>cb\<close> with one
  audio blob holding what was captured (\<open>captured\<close>, which the host's microphone decides).
\<close>

record WebkitAudio =
  capturing :: bool

definition new_WebkitAudio :: WebkitAudio where
  "new_WebkitAudio = \<lparr>capturing = False\<rparr>"

definition WebkitAudio_startRecording :: "WebkitAudio \<Rightarrow> WebkitAudio" where
  "WebkitAudio_startRecording w = w\<lparr>capturing := True\<rparr>"

definition WebkitAudio_stopRecording :: "string \<Rightarrow> WebkitAudio \<Rightarrow> Blob \<times> WebkitAudio" where
  "WebkitAudio_stopRecording captured w =
     (\<lparr>content = captured, blob_type = ''audio/wav''\<rparr>, w\<lparr>capturing := False\<rparr>)"

record hook_session = session +
  fallBackAudio :: "WebkitAudio option"

definition initial_hook :: hook_session where
  "initial_hook =
     \<lparr>mediaRecorder = None, mediaChunks = [], mediaStream = None, status = idle,
      isAudioMuted = False, mediaBlobUrl = None, mediaBlob = None, error = ''NONE'',
      objectURLs = [], trace = [], fallBackAudio = None\<rparr>"

text \<open>\<^verbatim>\<open>const isWebkit = !window.MediaRecorder\<close>\<close>

definition isWebkit :: "host \<Rightarrow> bool" where
  "isWebkit h = (\<not> hasMediaRecorder h)"

definition getMediaStream_hook :: "props \<Rightarrow> outcome \<Rightarrow> outcome \<Rightarrow> hook_session \<Rightarrow> hook_session" where
  "getMediaStream_hook p display user s0 =
     (let s1 = setStatus acquiring_media s0;
          requiredMedia = (Some (required (audio p)), Some (required (video p)))
      in if screen p then
           (let s2 = call (GetDisplayMedia (or_true (video p))) s1
            in case display of
                 Inl name \<Rightarrow> setStatus idle (setError name s2)
               | Inr stream \<Rightarrow>
                   if truthy (audio p) then
                     (let s3 = call (GetUserMedia (Some (audio p)) None) s2
                      in case user of
                           Inl name \<Rightarrow> setStatus idle (setError name s3)
                         | Inr audioStream \<Rightarrow>
                             setStatus idle
                               (s3\<lparr>mediaStream :=
                                    Some (foldl addTrack stream (getAudioTracks audioStream))\<rparr>))
                   else setStatus idle (s2\<lparr>mediaStream := Some stream\<rparr>))
         else
           (let s2 = call (GetUserMedia (fst requiredMedia) (snd requiredMedia)) s1
            in case user of
                 Inl name \<Rightarrow> setStatus idle (setError name s2)
               | Inr stream \<Rightarrow> setStatus idle (s2\<lparr>mediaStream := Some stream\<rparr>)))"

text \<open>
  The hook's setup effect. With \<^verbatim>\<open>window.MediaRecorder\<close> absent, the MIME type check
  \<^verbatim>\<open>MediaRecorder.isTypeSupported(...)\<close> reads a global that does not exist, which raises.
\<close>

definition useEffect_hook :: "props \<Rightarrow> host \<Rightarrow> outcome \<Rightarrow> outcome \<Rightarrow> hook_session \<Rightarrow> setup_error + hook_session" where
  "useEffect_hook p h display user s0 =
     (let s1 = (if isWebkit h then s0\<lparr>fallBackAudio := Some new_WebkitAudio\<rparr> else s0)
      in if screen p \<and> \<not> hasGetDisplayMedia h then Inl NoScreenCapture
         else
           (let s2 = checkConstraints h (audio p) s1;
                s3 = checkConstraints h (video p) s2
            in case (case requested_mimeType p of
                       None \<Rightarrow> Inr s3
                     | Some m \<Rightarrow>
                         if \<not> hasMediaRecorder h then Inl ReferenceError
                         else if m \<notin> set (supportedMimeTypes h)
                         then Inr (call (ConsoleError UnsupportedMimeType) s3)
                         else Inr s3) of
                 Inl e \<Rightarrow> Inl e
               | Inr s4 \<Rightarrow>
                   if mediaStream s4 = None then Inr (getMediaStream_hook p display user s4)
                   else Inr s4))"

text \<open>
  \<^verbatim>\<open>startRecording\<close> of the hook. Neither branch touches \<^verbatim>\<open>mediaChunks\<close> or
  \<^verbatim>\<open>mediaBlobUrl\<close>.
\<close>

definition startRecording_hook :: "props \<Rightarrow> host \<Rightarrow> outcome \<Rightarrow> outcome \<Rightarrow> hook_session \<Rightarrow> hook_session" where
  "startRecording_hook p h display user s0 =
     (if isWebkit h then
        (let s1 = setError ''NONE'' s0
         in case fallBackAudio s1 of
              Some w \<Rightarrow>
                (let s2 = call FallbackStart
                            (s1\<lparr>fallBackAudio := Some (WebkitAudio_startRecording w)\<rparr>)
                 in setStatus recording s2)
            | None \<Rightarrow> setError ''NotFoundError'' s1)
      else
        (let s1 = setError ''NONE'' s0;
             s2 = (if mediaStream s1 = None then getMediaStream_hook p display user s1 else s1)
         in case mediaStream s2 of
              None \<Rightarrow> s2
            | Some stream \<Rightarrow>
                (let s3 = s2\<lparr>mediaRecorder := Some \<lparr>state = rec_inactive\<rparr>\<rparr>;
                     s4 = call RecorderStart
                            (s3\<lparr>mediaRecorder := Some \<lparr>state = rec_recording\<rparr>\<rparr>)
                 in setStatus recording s4)))"

definition onRecorderError_hook :: "hook_session \<Rightarrow> hook_session" where
  "onRecorderError_hook s = setStatus idle (setError ''NO_RECORDER'' s)"

definition onRecordingActive_hook :: "Blob \<Rightarrow> hook_session \<Rightarrow> hook_session" where
  "onRecordingActive_hook data s = s\<lparr>mediaChunks := mediaChunks s @ [data]\<rparr>"

definition onRecordingStop_hook :: "props \<Rightarrow> hook_session \<Rightarrow> hook_session" where
  "onRecordingStop_hook p s0 =
     (let blob = new_Blob (mediaChunks s0) (blobProperty p);
          (url, s1) = createObjectURL blob s0;
          s2 = setStatus stopped s1;
          s3 = s2\<lparr>mediaBlob := Some blob\<rparr>;
          s4 = s3\<lparr>mediaBlobUrl := Some url\<rparr>
      in call (OnStop url) s4)"

definition muteAudio_hook :: "bool \<Rightarrow> hook_session \<Rightarrow> hook_session" where
  "muteAudio_hook mute s0 =
     (let s1 = s0\<lparr>isAudioMuted := mute\<rparr>
      in case mediaStream s1 of
           None \<Rightarrow> s1
         | Some stream \<Rightarrow>
             s1\<lparr>mediaStream :=
                  Some (map (\<lambda>t. if kind t = audio_track then t\<lparr>enabled := \<not> mute\<rparr> else t)
                          stream)\<rparr>)"

text \<open>The host's \<^verbatim>\<open>pause()\<close> and \<^verbatim>\<open>resume()\<close> move the recorder to paused and back.\<close>

definition pauseRecording :: "hook_session \<Rightarrow> hook_session" where
  "pauseRecording s =
     (case mediaRecorder s of
        None \<Rightarrow> s
      | Some r \<Rightarrow>
          if state r = rec_recording
          then call RecorderPause (s\<lparr>mediaRecorder := Some (r\<lparr>state := rec_paused\<rparr>)\<rparr>)
          else s)"

definition resumeRecording :: "hook_session \<Rightarrow> hook_session" where
  "resumeRecording s =
     (case mediaRecorder s of
        None \<Rightarrow> s
      | Some r \<Rightarrow>
          if state r = rec_paused
          then call RecorderResume (s\<lparr>mediaRecorder := Some (r\<lparr>state := rec_recording\<rparr>)\<rparr>)
          else s)"

text \<open>
  \<^verbatim>\<open>stopRecording\<close> of the hook. On the fallback path the encoder's callback stores the
  blob and its URL and calls \<^verbatim>\<open>onStop\<close>.
\<close>

definition stopRecording_hook :: "host \<Rightarrow> string \<Rightarrow> hook_session \<Rightarrow> hook_session" where
  "stopRecording_hook h captured s0 =
     (if isWebkit h then
        (case fallBackAudio s0 of
           None \<Rightarrow> s0
         | Some w \<Rightarrow>
             (let (blob, w') = WebkitAudio_stopRecording captured w;
                  s1 = call FallbackStop (s0\<lparr>fallBackAudio := Some w'\<rparr>);
                  (url, s2) = createObjectURL blob s1;
                  s3 = setStatus stopped s2;
                  s4 = s3\<lparr>mediaBlob := Some blob\<rparr>;
                  s5 = s4\<lparr>mediaBlobUrl := Some url\<rparr>
              in call (OnStop url) s5))
      else
        (case mediaRecorder s0 of
           None \<Rightarrow> s0
         | Some r \<Rightarrow>
             (let s1 = setStatus stopping s0
              in call RecorderStop (s1\<lparr>mediaRecorder := Some (r\<lparr>state := rec_inactive\<rparr>)\<rparr>))))"

text \<open>The hook derives the preview stream from \<^verbatim>\<open>mediaStream.current\<close> at each render.\<close>

definition exposed_previewStream_hook :: "hook_session \<Rightarrow> MediaStream option" where
  "exposed_previewStream_hook s =
     (case mediaStream s of Some stream \<Rightarrow> Some (getVideoTracks stream) | None \<Rightarrow> None)"

section \<open>Projections of the trace\<close>

fun status_writes :: "effect list \<Rightarrow> StatusMessages list" where
  "status_writes [] = []"
| "status_writes (SetStatus st # es) = st # status_writes es"
| "status_writes (e # es) = status_writes es"

fun display_requests :: "effect list \<Rightarrow> media_constraint list" where
  "display_requests [] = []"
| "display_requests (GetDisplayMedia c # es) = c # display_requests es"
| "display_requests (e # es) = display_requests es"

fun recorder_calls :: "effect list \<Rightarrow> effect list" where
  "recorder_calls [] = []"
| "recorder_calls (RecorderPause # es) = RecorderPause # recorder_calls es"
| "recorder_calls (RecorderResume # es) = RecorderResume # recorder_calls es"
| "recorder_calls (e # es) = recorder_calls es"

fun onStop_calls :: "effect list \<Rightarrow> url list" where
  "onStop_calls [] = []"
| "onStop_calls (OnStop u # es) = u # onStop_calls es"
| "onStop_calls (e # es) = onStop_calls es"

text \<open>The state the underlying recorder reports (\<^verbatim>\<open>mediaRecorder.current.state\<close>), if there is one.\<close>

definition recorder_state :: "'a session_scheme \<Rightarrow> RecordingState option" where
  "recorder_state s = map_option state (mediaRecorder s)"

text \<open>
  An acquisition fails with the error named \<open>n\<close>: the request it awaits rejects with that
  name. In screen mode the display request comes first, and the microphone request
  follows only when \<^verbatim>\<open>audio\<close> is truthy; otherwise there is the one user-media request.
\<close>

definition fails_with :: "props \<Rightarrow> outcome \<Rightarrow> outcome \<Rightarrow> string \<Rightarrow> bool" where
  "fails_with p display user n =
     (if screen p
      then (case display of Inl m \<Rightarrow> m = n | Inr stream \<Rightarrow> truthy (audio p) \<and> user = Inl n)
      else user = Inl n)"

section \<open>Acquisition at its awaits\<close>

text \<open>
  \<^verbatim>\<open>getMediaStream\<close> is an async function: it runs up to its first \<^verbatim>\<open>await\<close>, and each
  outcome of an awaited request runs it up to the next \<^verbatim>\<open>await\<close> or to its end. Between
  these steps other code of the component can run, another acquisition among it: the
  setup effect and \<^verbatim>\<open>startRecording\<close> read \<^verbatim>\<open>!mediaStream.current\<close> before the first step,
  and the effect does not await the acquisition it starts. What an acquisition waits for
  is kept with the props its closure holds.
\<close>

datatype pending =
    AwaitDisplayMedia props
  | AwaitMicrophone props MediaStream
  | AwaitUserMedia props

definition getMediaStream_begin :: "props \<Rightarrow> rp_session \<Rightarrow> pending \<times> rp_session" where
  "getMediaStream_begin p s0 =
     (let s1 = setStatus acquiring_media s0;
          requiredMedia = (Some (required (audio p)), Some (required (video p)))
      in if screen p
         then (AwaitDisplayMedia p, call (GetDisplayMedia (or_true (video p))) s1)
         else (AwaitUserMedia p,
               call (GetUserMedia (fst requiredMedia) (snd requiredMedia)) s1))"

fun getMediaStream_resume :: "pending \<Rightarrow> outcome \<Rightarrow> rp_session \<Rightarrow> pending option \<times> rp_session" where
  "getMediaStream_resume (AwaitDisplayMedia p) (Inl name) s =
     (None, setStatus idle (setError name s))"
| "getMediaStream_resume (AwaitDisplayMedia p) (Inr stream) s =
     (if truthy (audio p)
      then (Some (AwaitMicrophone p stream), call (GetUserMedia (Some (audio p)) None) s)
      else (None, setStatus idle (s\<lparr>mediaStream := Some stream\<rparr>)))"
| "getMediaStream_resume (AwaitMicrophone p stream) (Inl name) s =
     (None, setStatus idle (setError name s))"
| "getMediaStream_resume (AwaitMicrophone p stream) (Inr audioStream) s =
     (None,
      setStatus idle
        (s\<lparr>mediaStream := Some (foldl addTrack stream (getAudioTracks audioStream))\<rparr>))"
| "getMediaStream_resume (AwaitUserMedia p) (Inl name) s =
     (None, setStatus idle (setError name s))"
| "getMediaStream_resume (AwaitUserMedia p) (Inr stream) s =
     (None,
      setStatus idle
        (s\<lparr>mediaStream := Some stream, previewStream := Some (getVideoTracks stream)\<rparr>))"

text \<open>The acquisition belongs to the screen-capture path.\<close>

fun screen_path :: "pending \<Rightarrow> bool" where
  "screen_path (AwaitDisplayMedia p) = True"
| "screen_path (AwaitMicrophone p stream) = True"
| "screen_path (AwaitUserMedia p) = False"

text \<open>
  The setup effect up to the point where it returns: the checks, and the first step of
  the acquisition it starts when no stream is held.
\<close>

definition useEffect_begin :: "props \<Rightarrow> host \<Rightarrow> rp_session \<Rightarrow> setup_error + pending option \<times> rp_session" where
  "useEffect_begin p h s0 =
     (if \<not> hasMediaRecorder h then Inl UnsupportedBrowser
      else if screen p \<and> \<not> hasGetDisplayMedia h then Inl NoScreenCapture
      else
        (let s1 = checkConstraints h (audio p) s0;
             s2 = checkConstraints h (video p) s1;
             s3 = (case requested_mimeType p of
                     None \<Rightarrow> s2
                   | Some m \<Rightarrow>
                       if m \<notin> set (supportedMimeTypes h)
                       then call (ConsoleError UnsupportedMimeType) s2 else s2)
         in if mediaStream s3 = None
            then (let (k, s4) = getMediaStream_begin p s3 in Inr (Some k, s4))
            else Inr (None, s3)))"

section \<open>The names of platform errors\<close>

text \<open>
  The names an error raised by the browser can have: the names Web IDL gives to
  \<^verbatim>\<open>DOMException\<close>, \<^verbatim>\<open>OverconstrainedError\<close> of the media capture API, and the native error
  types of the language.
\<close>

definition platform_error_names :: "string list" where
  "platform_error_names =
     [''IndexSizeError'', ''HierarchyRequestError'', ''WrongDocumentError'',
      ''InvalidCharacterError'', ''NoModificationAllowedError'', ''NotFoundError'',
      ''NotSupportedError'', ''InUseAttributeError'', ''InvalidStateError'', ''SyntaxError'',
      ''InvalidModificationError'', ''NamespaceError'', ''InvalidAccessError'',
      ''TypeMismatchError'', ''SecurityError'', ''NetworkError'', ''AbortError'',
      ''URLMismatchError'', ''QuotaExceededError'', ''TimeoutError'',
      ''InvalidNodeTypeError'', ''DataCloneError'', ''EncodingError'', ''NotReadableError'',
      ''UnknownError'', ''ConstraintError'', ''DataError'', ''TransactionInactiveError'',
      ''ReadOnlyError'', ''VersionError'', ''OperationError'', ''NotAllowedError'',
      ''OptOutError'', ''OverconstrainedError'',
      ''Error'', ''EvalError'', ''RangeError'', ''ReferenceError'', ''TypeError'',
      ''URIError'', ''AggregateError'']"

text \<open>The six platform error names that are keys of \<^verbatim>\<open>RecorderErrors\<close>.\<close>

definition enumerated_error_names :: "string list" where
  "enumerated_error_names =
     [''AbortError'', ''NotAllowedError'', ''NotFoundError'', ''NotReadableError'',
      ''OverconstrainedError'', ''TypeError'']"

section \<open>Example inputs\<close>

definition example_stream :: MediaStream where
  "example_stream =
     [\<lparr>track_id = 0, kind = audio_track, enabled = True\<rparr>,
      \<lparr>track_id = 1, kind = video_track, enabled = True\<rparr>]"

definition example_host :: host where
  "example_host =
     \<lparr>hasMediaRecorder = True, hasGetDisplayMedia = True,
      supportedConstraints = [''width'', ''height''], supportedMimeTypes = [''video/webm'']\<rparr>"

text \<open>A browser with neither \<^verbatim>\<open>MediaRecorder\<close> nor \<^verbatim>\<open>getDisplayMedia\<close>.\<close>

definition webkit_host :: host where
  "webkit_host =
     \<lparr>hasMediaRecorder = False, hasGetDisplayMedia = False,
      supportedConstraints = [''width'', ''height''], supportedMimeTypes = []\<rparr>"


section \<open>Basic facts\<close>

lemma truthy_or_true: "truthy (or_true v)"
  by (cases v) (simp_all add: or_true_def)


lemma status_writes_append: "status_writes (xs @ ys) = status_writes xs @ status_writes ys"
  by (induction xs rule: status_writes.induct) simp_all

lemma display_requests_append:
  "display_requests (xs @ ys) = display_requests xs @ display_requests ys"
  by (induction xs rule: display_requests.induct) simp_all

lemma onStop_calls_append: "onStop_calls (xs @ ys) = onStop_calls xs @ onStop_calls ys"
  by (induction xs rule: onStop_calls.induct) simp_all

lemmas setters = setStatus_def setError_def call_def

lemma getMediaStream_display_requests:
  "display_requests (trace (getMediaStream p display user s)) =
     display_requests (trace s) @ (if screen p then [or_true (video p)] else [])"
  by (simp add: getMediaStream_def setters Let_def display_requests_append split: sum.splits)

lemma getMediaStream_hook_display_requests:
  "display_requests (trace (getMediaStream_hook p display user s)) =
     display_requests (trace s) @ (if screen p then [or_true (video p)] else [])"
  by (simp add: getMediaStream_hook_def setters Let_def display_requests_append
      split: sum.splits)

lemma getMediaStream_status:
  "status_writes (trace (getMediaStream p display user s)) =
     status_writes (trace s) @ [acquiring_media, idle]
   \<and> status (getMediaStream p display user s) = idle"
  by (simp add: getMediaStream_def setters Let_def status_writes_append split: sum.splits)

lemma getMediaStream_hook_status:
  "status_writes (trace (getMediaStream_hook p display user s)) =
     status_writes (trace s) @ [acquiring_media, idle]
   \<and> status (getMediaStream_hook p display user s) = idle"
  by (simp add: getMediaStream_hook_def setters Let_def status_writes_append split: sum.splits)

lemma getMediaStream_trace_prefix:
  "\<exists>rest. trace (getMediaStream p display user s) = trace s @ rest"
  by (simp add: getMediaStream_def setters Let_def split: sum.splits)

lemma getMediaStream_hook_trace_prefix:
  "\<exists>rest. trace (getMediaStream_hook p display user s) = trace s @ rest"
  by (simp add: getMediaStream_hook_def setters Let_def split: sum.splits)

lemma startRecording_first:
  "\<exists>rest. trace (startRecording p display user s) = trace s @ SetError ''NONE'' # rest"
proof -
  obtain r where
    "trace (getMediaStream p display user (setError ''NONE'' s)) =
       trace (setError ''NONE'' s) @ r"
    using getMediaStream_trace_prefix by blast
  then show ?thesis
    by (auto simp: startRecording_def Let_def setters split: option.splits)
qed

lemma startRecording_hook_first:
  "\<exists>rest. trace (startRecording_hook p h display user s) = trace s @ SetError ''NONE'' # rest"
proof -
  obtain r where
    "trace (getMediaStream_hook p display user (setError ''NONE'' s)) =
       trace (setError ''NONE'' s) @ r"
    using getMediaStream_hook_trace_prefix by blast
  then show ?thesis
    by (auto simp: startRecording_hook_def Let_def setters split: option.splits)
qed

section \<open>Stopping without a recorder\<close>




text \<open>
  On a host without \<^verbatim>\<open>MediaRecorder\<close> the encoder is held in every state the setup leads
  to, so there a stop always reaches the encoder, started or not.
\<close>

lemma fallback_stop_without_start:
  "isWebkit h \<Longrightarrow> fallBackAudio t = Some w \<Longrightarrow>
     status (stopRecording_hook h captured t) = stopped"
  by (simp add: stopRecording_hook_def WebkitAudio_stopRecording_def createObjectURL_def
      setters Let_def)

section \<open>Pause and resume\<close>

text \<open>
  Claim C7. In the hook, \<^verbatim>\<open>pauseRecording\<close> calls the recorder's \<^verbatim>\<open>pause\<close> (once) when the
  recorder reports the state \<^verbatim>\<open>recording\<close>, and in every other state, or with no recorder,
  changes nothing; \<^verbatim>\<open>resumeRecording\<close> calls \<^verbatim>\<open>resume\<close> (once) when the recorder reports
  \<^verbatim>\<open>paused\<close>, and otherwise changes nothing.
\<close>

theorem pause_resume_in_matching_state_only:
  "(if recorder_state s = Some rec_recording
    then trace (pauseRecording s) = trace s @ [RecorderPause]
       \<and> recorder_state (pauseRecording s) = Some rec_paused
    else pauseRecording s = s)
   \<and> (if recorder_state s = Some rec_paused
    then trace (resumeRecording s) = trace s @ [RecorderResume]
       \<and> recorder_state (resumeRecording s) = Some rec_recording
    else resumeRecording s = s)"
  by (auto simp: pauseRecording_def resumeRecording_def recorder_state_def call_def
      split: option.splits)

theorem pause_resume_in_matching_state_only_witness:
  "(let s1 = startRecording_hook default_props example_host (Inl []) (Inr example_stream)
               initial_hook
    in recorder_state s1 = Some rec_recording
       \<and> resumeRecording s1 = s1
       \<and> recorder_calls (trace (pauseRecording s1)) = [RecorderPause]
       \<and> recorder_state (pauseRecording s1) = Some rec_paused
       \<and> pauseRecording (pauseRecording s1) = pauseRecording s1
       \<and> recorder_calls (trace (resumeRecording (pauseRecording s1)))
           = [RecorderPause, RecorderResume]
       \<and> recorder_state (resumeRecording (pauseRecording s1)) = Some rec_recording)
   \<and> recorder_state initial_hook = None
   \<and> pauseRecording initial_hook = initial_hook
   \<and> resumeRecording initial_hook = initial_hook"
  using pause_resume_in_matching_state_only
      [of "startRecording_hook default_props example_host (Inl []) (Inr example_stream)
             initial_hook"]
    pause_resume_in_matching_state_only
      [of "pauseRecording
             (startRecording_hook default_props example_host (Inl []) (Inr example_stream)
                initial_hook)"]
    pause_resume_in_matching_state_only [of initial_hook]
  by (simp add: Let_def recorder_state_def startRecording_hook_def getMediaStream_hook_def
      pauseRecording_def resumeRecording_def isWebkit_def example_host_def default_props_def
      initial_hook_def setters)

section \<open>The screen-capture request\<close>

text \<open>
  Claim C9. In screen-capture mode an acquisition makes exactly one display-media request,
  and its video constraint \<^verbatim>\<open>video || true\<close> is truthy whatever the caller passed as
  \<^verbatim>\<open>video\<close>; for \<^verbatim>\<open>video: false\<close> it is \<^verbatim>\<open>true\<close>. Both variants.
\<close>

theorem display_request_video_truthy:
  "screen p \<Longrightarrow>
     display_requests (trace (getMediaStream p display user s)) =
       display_requests (trace s) @ [or_true (video p)]
     \<and> display_requests (trace (getMediaStream_hook p display user t)) =
       display_requests (trace t) @ [or_true (video p)]
     \<and> truthy (or_true (video p))
     \<and> or_true (Flag False) = Flag True"
  by (simp add: getMediaStream_display_requests getMediaStream_hook_display_requests
      truthy_or_true) (simp add: or_true_def)

theorem display_request_video_truthy_witness:
  "screen (default_props\<lparr>screen := True\<rparr>)
   \<and> display_requests
        (trace (getMediaStream (default_props\<lparr>screen := True\<rparr>) (Inr example_stream)
                  (Inr example_stream) initial)) = [Flag True]
   \<and> display_requests
        (trace (getMediaStream_hook (default_props\<lparr>screen := True\<rparr>) (Inr example_stream)
                  (Inr example_stream) initial_hook)) = [Flag True]"
  using display_request_video_truthy
    [of "default_props\<lparr>screen := True\<rparr>" "Inr example_stream" "Inr example_stream" initial
      initial_hook]
  by (simp add: default_props_def initial_def initial_hook_def or_true_def)

section \<open>Acquisition: status and error\<close>

lemma getMediaStream_fails:
  "fails_with p display user n \<Longrightarrow>
     error (getMediaStream p display user s) = n
     \<and> mediaStream (getMediaStream p display user s) = mediaStream s"
  by (auto simp: fails_with_def getMediaStream_def setters Let_def split: sum.splits if_splits)

lemma getMediaStream_hook_fails:
  "fails_with p display user n \<Longrightarrow>
     error (getMediaStream_hook p display user s) = n
     \<and> mediaStream (getMediaStream_hook p display user s) = mediaStream s"
  by (auto simp: fails_with_def getMediaStream_hook_def setters Let_def
      split: sum.splits if_splits)

lemma getMediaStream_succeeds:
  "\<not> (\<exists>n. fails_with p display user n) \<Longrightarrow>
     error (getMediaStream p display user s) = error s
     \<and> mediaStream (getMediaStream p display user s) \<noteq> None"
  by (auto simp: fails_with_def getMediaStream_def setters Let_def split: sum.splits if_splits)

lemma getMediaStream_hook_succeeds:
  "\<not> (\<exists>n. fails_with p display user n) \<Longrightarrow>
     error (getMediaStream_hook p display user s) = error s
     \<and> mediaStream (getMediaStream_hook p display user s) \<noteq> None"
  by (auto simp: fails_with_def getMediaStream_hook_def setters Let_def
      split: sum.splits if_splits)

lemma lookup_NotAllowedError:
  "RecorderErrors_lookup ''NotAllowedError'' = JSString ''permission_denied''"
  by (simp add: RecorderErrors_lookup_def RecorderErrors_def)

lemma lookup_NONE: "RecorderErrors_lookup ''NONE'' = JSString ''''"
  by (simp add: RecorderErrors_lookup_def RecorderErrors_def)

lemma startRecording_error_cleared:
  "mediaStream s \<noteq> None \<or> \<not> (\<exists>n. fails_with p display user n) \<Longrightarrow>
     error (startRecording p display user s) = ''NONE''"
  using getMediaStream_succeeds [of p display user "setError ''NONE'' s"]
  by (auto simp: startRecording_def Let_def setters split: option.splits)

lemma startRecording_hook_error_cleared:
  "hasMediaRecorder h \<Longrightarrow>
     mediaStream s \<noteq> None \<or> \<not> (\<exists>n. fails_with p display user n) \<Longrightarrow>
       error (startRecording_hook p h display user s) = ''NONE''"
  using getMediaStream_hook_succeeds [of p display user "setError ''NONE'' s"]
  by (auto simp: startRecording_hook_def isWebkit_def Let_def setters split: option.splits)

lemma getMediaStream_entry:
  "\<exists>rest. trace (getMediaStream p display user s) = trace s @ SetStatus acquiring_media # rest"
  by (simp add: getMediaStream_def setters Let_def split: sum.splits)

lemma getMediaStream_hook_entry:
  "\<exists>rest. trace (getMediaStream_hook p display user s) =
     trace s @ SetStatus acquiring_media # rest"
  by (simp add: getMediaStream_hook_def setters Let_def split: sum.splits)

text \<open>
  Claim C3. Every acquisition, in both variants and whatever the host answers, begins
  by writing the status \<^verbatim>\<open>acquiring_media\<close>, then writes \<^verbatim>\<open>idle\<close>, and writes nothing else
  to the status, so it ends \<^verbatim>\<open>idle\<close> on success and on failure. When it fails with \<^verbatim>\<open>NotAllowedError\<close> the error
  handed to the caller is \<^verbatim>\<open>permission_denied\<close>. Every \<^verbatim>\<open>startRecording\<close> begins by setting
  the error to \<^verbatim>\<open>NONE\<close>, before any other effect; and when a stream is there already or its
  acquisition succeeds, the error handed to the caller after the call is the empty code.
\<close>

theorem acquisition_status_and_error:
  "(\<exists>rest. trace (getMediaStream p display user s) =
       trace s @ SetStatus acquiring_media # rest)
   \<and> status_writes (trace (getMediaStream p display user s)) =
     status_writes (trace s) @ [acquiring_media, idle]
   \<and> status (getMediaStream p display user s) = idle
   \<and> (\<exists>rest. trace (getMediaStream_hook p display user t) =
       trace t @ SetStatus acquiring_media # rest)
   \<and> status_writes (trace (getMediaStream_hook p display user t)) =
     status_writes (trace t) @ [acquiring_media, idle]
   \<and> status (getMediaStream_hook p display user t) = idle
   \<and> (fails_with p display user ''NotAllowedError'' \<longrightarrow>
        exposed_error (getMediaStream p display user s) = JSString ''permission_denied''
        \<and> exposed_error (getMediaStream_hook p display user t) = JSString ''permission_denied'')
   \<and> (\<exists>rest. trace (startRecording p display user s) = trace s @ SetError ''NONE'' # rest)
   \<and> (\<exists>rest. trace (startRecording_hook p h display user t) =
         trace t @ SetError ''NONE'' # rest)
   \<and> (mediaStream s \<noteq> None \<or> \<not> (\<exists>n. fails_with p display user n) \<longrightarrow>
        exposed_error (startRecording p display user s) = JSString '''')
   \<and> (hasMediaRecorder h
        \<and> (mediaStream t \<noteq> None \<or> \<not> (\<exists>n. fails_with p display user n)) \<longrightarrow>
        exposed_error (startRecording_hook p h display user t) = JSString '''')"
  using getMediaStream_entry [of p display user s]
    getMediaStream_hook_entry [of p display user t]
    getMediaStream_status [of p display user s]
    getMediaStream_hook_status [of p display user t]
    startRecording_first [of p display user s]
    startRecording_hook_first [of p h display user t]
    getMediaStream_fails [of p display user "''NotAllowedError''" s]
    getMediaStream_hook_fails [of p display user "''NotAllowedError''" t]
    startRecording_error_cleared [of s p display user]
    startRecording_hook_error_cleared [of h t p display user]
  by (simp add: exposed_error_def lookup_NotAllowedError lookup_NONE)

theorem acquisition_status_and_error_witness:
  "fails_with default_props (Inl ''AbortError'') (Inl ''NotAllowedError'') ''NotAllowedError''
   \<and> status (getMediaStream default_props (Inl ''AbortError'') (Inl ''NotAllowedError'') initial)
       = idle
   \<and> exposed_error
        (getMediaStream default_props (Inl ''AbortError'') (Inl ''NotAllowedError'') initial)
       = JSString ''permission_denied''
   \<and> exposed_error
        (getMediaStream_hook default_props (Inl ''AbortError'') (Inl ''NotAllowedError'')
           initial_hook)
       = JSString ''permission_denied''
   \<and> \<not> (\<exists>n. fails_with default_props (Inl ''AbortError'') (Inr example_stream) n)
   \<and> hasMediaRecorder example_host
   \<and> exposed_error
        (startRecording default_props (Inl ''AbortError'') (Inr example_stream)
           (getMediaStream default_props (Inl ''AbortError'') (Inl ''NotAllowedError'') initial))
       = JSString ''''
   \<and> exposed_error
        (startRecording_hook default_props example_host (Inl ''AbortError'')
           (Inr example_stream)
           (getMediaStream_hook default_props (Inl ''AbortError'') (Inl ''NotAllowedError'')
              initial_hook))
       = JSString ''''"
  using acquisition_status_and_error
      [of default_props "Inl ''AbortError''" "Inl ''NotAllowedError''" initial initial_hook
        example_host]
    acquisition_status_and_error
      [of default_props "Inl ''AbortError''" "Inr example_stream"
        "getMediaStream default_props (Inl ''AbortError'') (Inl ''NotAllowedError'') initial"
        "getMediaStream_hook default_props (Inl ''AbortError'') (Inl ''NotAllowedError'')
           initial_hook"
        example_host]
  by (simp add: fails_with_def default_props_def example_host_def)

section \<open>Error names outside the table\<close>

lemma lookup_unlisted:
  "n \<notin> set (map fst RecorderErrors) \<Longrightarrow> n \<notin> set Object_prototype_keys \<Longrightarrow>
     RecorderErrors_lookup n = JSUndefined"
  by (simp add: RecorderErrors_lookup_def map_of_eq_None_iff [THEN iffD2] image_iff
      split: option.splits)

text \<open>
  No platform error is named like one of the table's two other keys (\<^verbatim>\<open>NONE\<close>,
  \<^verbatim>\<open>NO_RECORDER\<close>) or like a property the table inherits.
\<close>

lemma platform_error_names_checked:
  "list_all (\<lambda>n. n \<in> set enumerated_error_names
        \<or> (n \<notin> set (map fst RecorderErrors) \<and> n \<notin> set Object_prototype_keys))
     platform_error_names"
  by (simp add: platform_error_names_def enumerated_error_names_def RecorderErrors_def
      Object_prototype_keys_def)

lemma platform_error_names_miss:
  "n \<in> set platform_error_names \<Longrightarrow> n \<notin> set enumerated_error_names \<Longrightarrow>
     n \<notin> set (map fst RecorderErrors) \<and> n \<notin> set Object_prototype_keys"
  using platform_error_names_checked unfolding list_all_iff by blast

text \<open>
  Claim C8. When an acquisition fails with a platform error whose name is not one of the
  six enumerated keys (\<^verbatim>\<open>AbortError\<close>, \<^verbatim>\<open>NotAllowedError\<close>, \<^verbatim>\<open>NotFoundError\<close>,
  \<^verbatim>\<open>NotReadableError\<close>, \<^verbatim>\<open>OverconstrainedError\<close>, \<^verbatim>\<open>TypeError\<close>), the error handed to the
  caller is the result of a lookup that misses, \<^verbatim>\<open>undefined\<close>: it is none of the table's
  codes, the empty code among them. Both variants.
\<close>

theorem unlisted_platform_error_is_undefined:
  "fails_with p display user n \<Longrightarrow> n \<in> set platform_error_names \<Longrightarrow>
     n \<notin> set enumerated_error_names \<Longrightarrow>
       exposed_error (getMediaStream p display user s) = JSUndefined
       \<and> exposed_error (getMediaStream p display user s)
            \<notin> set (map (\<lambda>entry. JSString (snd entry)) RecorderErrors)
       \<and> exposed_error (getMediaStream_hook p display user t) = JSUndefined
       \<and> exposed_error (getMediaStream_hook p display user t)
            \<notin> set (map (\<lambda>entry. JSString (snd entry)) RecorderErrors)"
proof -
  assume fails: "fails_with p display user n" and platform: "n \<in> set platform_error_names"
    and unlisted: "n \<notin> set enumerated_error_names"
  have "RecorderErrors_lookup n = JSUndefined"
    using platform_error_names_miss [OF platform unlisted] by (simp add: lookup_unlisted)
  moreover have "error (getMediaStream p display user s) = n"
    using getMediaStream_fails [OF fails] by simp
  moreover have "error (getMediaStream_hook p display user t) = n"
    using getMediaStream_hook_fails [OF fails] by simp
  ultimately show ?thesis
    by (auto simp: exposed_error_def)
qed

theorem unlisted_platform_error_is_undefined_witness:
  "fails_with default_props (Inl ''AbortError'') (Inl ''SecurityError'') ''SecurityError''
   \<and> ''SecurityError'' \<in> set platform_error_names
   \<and> ''SecurityError'' \<notin> set enumerated_error_names
   \<and> exposed_error
        (getMediaStream default_props (Inl ''AbortError'') (Inl ''SecurityError'') initial)
       = JSUndefined
   \<and> exposed_error
        (getMediaStream_hook default_props (Inl ''AbortError'') (Inl ''SecurityError'')
           initial_hook)
       = JSUndefined
   \<and> fails_with (default_props\<lparr>screen := True\<rparr>) (Inl ''InvalidStateError'') (Inl [])
        ''InvalidStateError''
   \<and> ''InvalidStateError'' \<in> set platform_error_names
   \<and> ''InvalidStateError'' \<notin> set enumerated_error_names
   \<and> exposed_error
        (getMediaStream (default_props\<lparr>screen := True\<rparr>) (Inl ''InvalidStateError'') (Inl [])
           initial)
       = JSUndefined"
  using unlisted_platform_error_is_undefined
      [of default_props "Inl ''AbortError''" "Inl ''SecurityError''" "''SecurityError''"
        initial initial_hook]
    unlisted_platform_error_is_undefined
      [of "default_props\<lparr>screen := True\<rparr>" "Inl ''InvalidStateError''" "Inl []"
        "''InvalidStateError''" initial initial_hook]
  by (simp add: fails_with_def default_props_def platform_error_names_def
      enumerated_error_names_def)

section \<open>The preview stream of the render-prop variant\<close>


text \<open>An acquisition run without interruption is its steps run one after the other.\<close>

lemma getMediaStream_by_steps:
  "getMediaStream p display user s =
     (let (k, s1) = getMediaStream_begin p s
      in case getMediaStream_resume k (if screen p then display else user) s1 of
           (None, s2) \<Rightarrow> s2
         | (Some k', s2) \<Rightarrow> snd (getMediaStream_resume k' user s2))"
  by (cases display; cases user)
    (simp_all add: getMediaStream_def getMediaStream_begin_def Let_def)

lemma useEffect_by_steps:
  "useEffect p h display user s =
     (case useEffect_begin p h s of
        Inl e \<Rightarrow> Inl e
      | Inr (None, s1) \<Rightarrow> Inr s1
      | Inr (Some k, s1) \<Rightarrow>
          (case getMediaStream_resume k (if screen p then display else user) s1 of
             (None, s2) \<Rightarrow> Inr s2
           | (Some k', s2) \<Rightarrow> Inr (snd (getMediaStream_resume k' user s2))))"
  by (simp add: useEffect_def useEffect_begin_def getMediaStream_by_steps Let_def
      split: prod.splits option.splits)


lemma getMediaStream_resume_previewStream:
  "previewStream (snd (getMediaStream_resume k out s)) =
     (case (k, out) of
        (AwaitUserMedia p, Inr stream) \<Rightarrow> Some (getVideoTracks stream)
      | _ \<Rightarrow> previewStream s)"
  by (cases k; cases out) (simp_all add: setters)

lemma getMediaStream_resume_screen_path:
  "screen_path k \<Longrightarrow> getMediaStream_resume k out s = (Some k', s') \<Longrightarrow> screen_path k'"
  by (cases k; cases out) (auto split: if_splits)




section \<open>Muting\<close>

lemma mute_map_audio:
  "list_all (\<lambda>track. enabled track = (\<not> mute))
     (getAudioTracks
        (map (\<lambda>t. if kind t = audio_track then t\<lparr>enabled := \<not> mute\<rparr> else t) stream))"
  by (induction stream) (simp_all add: getAudioTracks_def)

lemma mute_map_video:
  "getVideoTracks (map (\<lambda>t. if kind t = audio_track then t\<lparr>enabled := \<not> mute\<rparr> else t) stream)
     = getVideoTracks stream"
  by (induction stream) (simp_all add: getVideoTracks_def)

lemma mute_map_ids:
  "map track_id (map (\<lambda>t. if kind t = audio_track then t\<lparr>enabled := \<not> mute\<rparr> else t) stream)
     = map track_id stream
   \<and> map kind (map (\<lambda>t. if kind t = audio_track then t\<lparr>enabled := \<not> mute\<rparr> else t) stream)
     = map kind stream"
  by (induction stream) simp_all

text \<open>
  Claim C5, as it stands, fails in its last part: \<^verbatim>\<open>setIsAudioMuted(mute)\<close> comes before
  the test for a stream, so without a stream \<^verbatim>\<open>muteAudio\<close> still turns the exposed mute
  flag on. Both variants.
\<close>

theorem mute_without_stream_counterexample:
  "mediaStream initial = None \<and> isAudioMuted initial = False
   \<and> isAudioMuted (muteAudio True initial) = True
   \<and> muteAudio True initial \<noteq> initial
   \<and> mediaStream initial_hook = None \<and> isAudioMuted initial_hook = False
   \<and> isAudioMuted (muteAudio_hook True initial_hook) = True
   \<and> muteAudio_hook True initial_hook \<noteq> initial_hook"
  by (simp add: muteAudio_def muteAudio_hook_def initial_def initial_hook_def Let_def)

text \<open>
  Claim C5, amended. With a stream, \<^verbatim>\<open>muteAudio\<close> (\<open>mute\<close> true) leaves every audio track
  of the stream disabled and \<^verbatim>\<open>unMuteAudio\<close> (\<open>mute\<close> false) leaves every audio track
  enabled; the stream keeps its tracks, their order and kinds, its video tracks are
  untouched, and nothing else in the session changes but the mute flag. Without a stream
  the call changes the mute flag, which is set to \<open>mute\<close>, and nothing else. Both variants.
\<close>

theorem mute_sets_audio_tracks_and_flag:
  "(mediaStream s = Some stream \<longrightarrow>
      (\<exists>stream'. muteAudio mute s = s\<lparr>isAudioMuted := mute, mediaStream := Some stream'\<rparr>
         \<and> list_all (\<lambda>track. enabled track = (\<not> mute)) (getAudioTracks stream')
         \<and> getVideoTracks stream' = getVideoTracks stream
         \<and> map track_id stream' = map track_id stream \<and> map kind stream' = map kind stream))
   \<and> (mediaStream s = None \<longrightarrow> muteAudio mute s = s\<lparr>isAudioMuted := mute\<rparr>)
   \<and> (mediaStream t = Some stream \<longrightarrow>
      (\<exists>stream'. muteAudio_hook mute t = t\<lparr>isAudioMuted := mute, mediaStream := Some stream'\<rparr>
         \<and> list_all (\<lambda>track. enabled track = (\<not> mute)) (getAudioTracks stream')
         \<and> getVideoTracks stream' = getVideoTracks stream
         \<and> map track_id stream' = map track_id stream \<and> map kind stream' = map kind stream))
   \<and> (mediaStream t = None \<longrightarrow> muteAudio_hook mute t = t\<lparr>isAudioMuted := mute\<rparr>)"
  using mute_map_audio [of mute stream] mute_map_video [of mute stream]
    mute_map_ids [of mute stream]
  by (auto simp: muteAudio_def muteAudio_hook_def Let_def)

theorem mute_sets_audio_tracks_and_flag_witness:
  "mediaStream (getMediaStream default_props (Inl []) (Inr example_stream) initial)
     = Some example_stream
   \<and> mediaStream
        (muteAudio True (getMediaStream default_props (Inl []) (Inr example_stream) initial))
     = Some [\<lparr>track_id = 0, kind = audio_track, enabled = False\<rparr>,
             \<lparr>track_id = 1, kind = video_track, enabled = True\<rparr>]
   \<and> mediaStream
        (getMediaStream_hook default_props (Inl []) (Inr example_stream) initial_hook)
     = Some example_stream
   \<and> mediaStream
        (muteAudio_hook True
           (getMediaStream_hook default_props (Inl []) (Inr example_stream) initial_hook))
     = Some [\<lparr>track_id = 0, kind = audio_track, enabled = False\<rparr>,
             \<lparr>track_id = 1, kind = video_track, enabled = True\<rparr>]
   \<and> mediaStream initial_hook = None
   \<and> muteAudio_hook True initial_hook = initial_hook\<lparr>isAudioMuted := True\<rparr>
   \<and> mediaStream initial = None
   \<and> muteAudio False initial = initial"
  using mute_sets_audio_tracks_and_flag
      [of "getMediaStream default_props (Inl []) (Inr example_stream) initial" example_stream
        True
        "getMediaStream_hook default_props (Inl []) (Inr example_stream) initial_hook"]
    mute_sets_audio_tracks_and_flag [of initial example_stream True initial_hook]
    mute_sets_audio_tracks_and_flag [of initial example_stream False initial_hook]
  by (simp add: muteAudio_def muteAudio_hook_def getMediaStream_def getMediaStream_hook_def
      default_props_def example_stream_def initial_def initial_hook_def setters Let_def)

section \<open>Without the host's recorder\<close>

lemma checkConstraints_fallBackAudio:
  "fallBackAudio (checkConstraints h c s) = fallBackAudio s"
  by (simp add: checkConstraints_def call_def Let_def split: media_constraint.splits)

lemma getMediaStream_hook_fallBackAudio:
  "fallBackAudio (getMediaStream_hook p display user s) = fallBackAudio s"
  by (simp add: getMediaStream_hook_def setters Let_def split: sum.splits)

lemma useEffect_hook_webkit:
  assumes "\<not> hasMediaRecorder h" and "screen p \<longrightarrow> hasGetDisplayMedia h"
    and "requested_mimeType p = None"
  shows "\<exists>s1. useEffect_hook p h display user t = Inr s1
           \<and> fallBackAudio s1 = Some new_WebkitAudio"
  using assms
  by (auto simp: useEffect_hook_def isWebkit_def Let_def checkConstraints_fallBackAudio
      getMediaStream_hook_fallBackAudio)

lemma fallback_cycle:
  assumes "\<not> hasMediaRecorder h" and "fallBackAudio s1 = Some w"
  shows "status (startRecording_hook p h display user s1) = recording
     \<and> (let s3 = stopRecording_hook h captured (startRecording_hook p h display user s1);
            blob = \<lparr>content = captured, blob_type = ''audio/wav''\<rparr>;
            url = length (objectURLs s1)
        in status s3 = stopped \<and> mediaBlob s3 = Some blob \<and> mediaBlobUrl s3 = Some url
           \<and> objectURLs s3 = objectURLs s1 @ [blob]
           \<and> onStop_calls (trace s3) = onStop_calls (trace s1) @ [url])"
  using assms
  by (simp add: startRecording_hook_def stopRecording_hook_def isWebkit_def Let_def setters
      createObjectURL_def WebkitAudio_startRecording_def WebkitAudio_stopRecording_def
      onStop_calls_append)

text \<open>
  Claim C6, as it stands, fails for the hook: its setup effect has a check of its own.
  On a host with neither \<^verbatim>\<open>MediaRecorder\<close> nor \<^verbatim>\<open>getDisplayMedia\<close>, a hook asked for screen
  capture raises at setup, as the render-prop variant does, and no session is left to
  start or stop.
\<close>

theorem hook_setup_raises_counterexample:
  "\<not> hasMediaRecorder webkit_host
   \<and> useEffect_hook (default_props\<lparr>screen := True\<rparr>) webkit_host (Inr example_stream)
        (Inr example_stream) initial_hook = Inl NoScreenCapture"
  by (simp add: useEffect_hook_def webkit_host_def default_props_def isWebkit_def Let_def)

text \<open>
  Claim C6, amended. On a host without \<^verbatim>\<open>MediaRecorder\<close> the setup of the render-prop
  variant raises. The setup of the hook, when it is not asked for screen capture on a
  host without \<^verbatim>\<open>getDisplayMedia\<close> and is given no MIME type to check, completes and
  leaves the in-process encoder in place; from there \<^verbatim>\<open>startRecording\<close> sets the status
  \<^verbatim>\<open>recording\<close>, and the following \<^verbatim>\<open>stopRecording\<close> ends with status \<^verbatim>\<open>stopped\<close>, the
  encoder's audio blob stored, a fresh URL registered for that blob and stored, and
  \<^verbatim>\<open>onStop\<close> called once, with that URL.
\<close>

theorem fallback_encoder_when_recorder_absent:
  assumes "\<not> hasMediaRecorder h" and "screen p \<longrightarrow> hasGetDisplayMedia h"
    and "requested_mimeType p = None"
  shows "useEffect p h display user s = Inl UnsupportedBrowser
     \<and> (\<exists>s1. useEffect_hook p h display user t = Inr s1 \<and> fallBackAudio s1 \<noteq> None
          \<and> status (startRecording_hook p h display' user' s1) = recording
          \<and> (let s3 = stopRecording_hook h captured
                        (startRecording_hook p h display' user' s1);
                 blob = \<lparr>content = captured, blob_type = ''audio/wav''\<rparr>;
                 url = length (objectURLs s1)
             in status s3 = stopped \<and> mediaBlob s3 = Some blob \<and> mediaBlobUrl s3 = Some url
                \<and> url < length (objectURLs s3) \<and> objectURLs s3 ! url = blob
                \<and> onStop_calls (trace s3) = onStop_calls (trace s1) @ [url]))"
proof -
  obtain s1 where s1: "useEffect_hook p h display user t = Inr s1"
      and fb: "fallBackAudio s1 = Some new_WebkitAudio"
    using useEffect_hook_webkit [OF assms] by blast
  have "useEffect p h display user s = Inl UnsupportedBrowser"
    using assms(1) by (simp add: useEffect_def)
  moreover have "fallBackAudio s1 \<noteq> None" using fb by simp
  ultimately show ?thesis
    using s1 fallback_cycle [OF assms(1) fb, of p display' user' captured]
    by (simp add: Let_def)
qed

theorem fallback_encoder_when_recorder_absent_witness:
  "\<not> hasMediaRecorder (webkit_host\<lparr>hasGetDisplayMedia := True\<rparr>)
   \<and> screen (default_props\<lparr>screen := True\<rparr>)
   \<and> hasGetDisplayMedia (webkit_host\<lparr>hasGetDisplayMedia := True\<rparr>)
   \<and> requested_mimeType (default_props\<lparr>screen := True\<rparr>) = None
   \<and> useEffect (default_props\<lparr>screen := True\<rparr>) (webkit_host\<lparr>hasGetDisplayMedia := True\<rparr>)
         (Inl []) (Inr example_stream) initial
       = Inl UnsupportedBrowser
   \<and> (case useEffect_hook (default_props\<lparr>screen := True\<rparr>)
             (webkit_host\<lparr>hasGetDisplayMedia := True\<rparr>) (Inl []) (Inr example_stream)
             initial_hook of
        Inl e \<Rightarrow> False
      | Inr s1 \<Rightarrow>
          (let s3 = stopRecording_hook (webkit_host\<lparr>hasGetDisplayMedia := True\<rparr>) ''pcm''
                      (startRecording_hook (default_props\<lparr>screen := True\<rparr>)
                         (webkit_host\<lparr>hasGetDisplayMedia := True\<rparr>) (Inl []) (Inl []) s1)
           in status s3 = stopped
              \<and> mediaBlob s3 = Some \<lparr>content = ''pcm'', blob_type = ''audio/wav''\<rparr>
              \<and> mediaBlobUrl s3 = Some 0
              \<and> onStop_calls (trace s3) = [0]))"
  using fallback_encoder_when_recorder_absent
      [of "webkit_host\<lparr>hasGetDisplayMedia := True\<rparr>" "default_props\<lparr>screen := True\<rparr>"
        "Inl []" "Inr example_stream" initial initial_hook "Inl []" "Inl []" "''pcm''"]
  by (auto simp: webkit_host_def default_props_def requested_mimeType_def initial_hook_def
      useEffect_hook_def isWebkit_def checkConstraints_def getMediaStream_hook_def setters
      or_true_def Let_def onStop_calls_append)

text \<open>
  The hook's MIME type check goes through the global \<^verbatim>\<open>MediaRecorder\<close> without asking
  whether it is there: on a host without it, a hook given a MIME type raises at setup.
\<close>

lemma hook_setup_mimeType_without_recorder:
  "useEffect_hook
     (default_props\<lparr>mediaRecorderOptions := Some \<lparr>mimeType = Some ''audio/webm''\<rparr>\<rparr>)
     webkit_host (Inl []) (Inr example_stream) initial_hook = Inl ReferenceError"
  by (simp add: useEffect_hook_def webkit_host_def default_props_def requested_mimeType_def
      isWebkit_def checkConstraints_def Let_def)

section \<open>The content type of the blob\<close>

lemma blobProperty_with_bag: "blobPropertyBag p = Some bag \<Longrightarrow> blobProperty p = ''video/mp4''"
  by (simp add: blobProperty_def)

text \<open>
  Claim C1 does not hold of the code. The test \<^verbatim>\<open>blobPropertyBag || video\<close> is true for
  every bag that is supplied, and the bag itself is never read: a recording made with
  \<^verbatim>\<open>video: false\<close> and the bag \<^verbatim>\<open>{ type: 'audio/wav' }\<close>, which is not a video bag, ends in
  a blob of type \<^verbatim>\<open>video/mp4\<close>, where the claim has an audio blob. Both variants.
\<close>

theorem audio_bag_gives_video_blob:
  "map_option blob_type
     (mediaBlob
        (onRecordingStop
           (default_props
              \<lparr>blobPropertyBag := Some \<lparr>bag_type = Some ''audio/wav'', endings = None\<rparr>\<rparr>)
           (onRecordingActive \<lparr>content = ''ab'', blob_type = ''audio/webm''\<rparr> initial)))
     = Some ''video/mp4''
   \<and> map_option blob_type
     (mediaBlob
        (onRecordingStop_hook
           (default_props
              \<lparr>blobPropertyBag := Some \<lparr>bag_type = Some ''audio/wav'', endings = None\<rparr>\<rparr>)
           (onRecordingActive_hook \<lparr>content = ''ab'', blob_type = ''audio/webm''\<rparr>
              initial_hook)))
     = Some ''video/mp4''"
  by (simp add: onRecordingStop_def onRecordingStop_hook_def onRecordingActive_def
      onRecordingActive_hook_def createObjectURL_def new_Blob_def blobProperty_def
      default_props_def initial_def initial_hook_def setters Let_def)

section \<open>A second recording\<close>

lemma startRecording_hook_keeps_buffer:
  "mediaChunks (startRecording_hook p h display user s) = mediaChunks s
   \<and> mediaBlobUrl (startRecording_hook p h display user s) = mediaBlobUrl s"
  by (simp add: startRecording_hook_def getMediaStream_hook_def setters Let_def
      split: option.splits sum.splits)

text \<open>
  Claim C2 does not hold of the hook. Its \<^verbatim>\<open>startRecording\<close> leaves out the two resets
  the render-prop variant makes (\<^verbatim>\<open>mediaChunks.current = []\<close>, \<^verbatim>\<open>setMediaBlobUrl(null)\<close>).
  After one cycle with the chunk \<open>first\<close>, a second start still holds that chunk and the
  first URL, and the second cycle, which emits only \<open>second\<close>, ends in a blob holding both.
\<close>

theorem hook_second_recording_keeps_first_chunks:
  "(let p = default_props;
        a = \<lparr>content = ''first'', blob_type = ''audio/webm''\<rparr>;
        b = \<lparr>content = ''second'', blob_type = ''audio/webm''\<rparr>;
        s1 = startRecording_hook p example_host (Inl []) (Inr example_stream) initial_hook;
        s2 = onRecordingStop_hook p
               (stopRecording_hook example_host [] (onRecordingActive_hook a s1));
        s3 = startRecording_hook p example_host (Inl []) (Inl []) s2;
        s4 = onRecordingStop_hook p
               (stopRecording_hook example_host [] (onRecordingActive_hook b s3))
    in status s3 = recording \<and> mediaChunks s3 = [a] \<and> mediaBlobUrl s3 = Some 0
       \<and> map_option content (mediaBlob s4) = Some ''firstsecond'')"
  by (simp add: startRecording_hook_def getMediaStream_hook_def onRecordingActive_hook_def
      stopRecording_hook_def onRecordingStop_hook_def createObjectURL_def new_Blob_def
      blobProperty_def isWebkit_def default_props_def example_host_def example_stream_def
      initial_hook_def setters Let_def)

section \<open>Further properties of a recording cycle\<close>

lemma feed_chunks:
  "foldl (\<lambda>r c. onRecordingActive c r) s cs = s\<lparr>mediaChunks := mediaChunks s @ cs\<rparr>"
  by (induction cs arbitrary: s) (simp_all add: onRecordingActive_def)

lemma startRecording_resets:
  "mediaStream (startRecording p display user s) \<noteq> None \<Longrightarrow>
     mediaChunks (startRecording p display user s) = []
     \<and> mediaBlobUrl (startRecording p display user s) = None
     \<and> mediaRecorder (startRecording p display user s) \<noteq> None"
  by (auto simp: startRecording_def Let_def setters split: option.splits)

text \<open>
  In the render-prop variant a start that begins recording (it has a stream) leaves the
  chunk buffer empty and the blob URL null, and the blob made at the stop event that
  follows holds exactly the chunks \<open>cs\<close> emitted since that start, in their order.
\<close>

theorem startRecording_resets_buffer_and_url:
  "mediaStream (startRecording p display user s) \<noteq> None \<longrightarrow>
     mediaChunks (startRecording p display user s) = []
     \<and> mediaBlobUrl (startRecording p display user s) = None
     \<and> mediaBlob
          (onRecordingStop p
             (stopRecording
                (foldl (\<lambda>r c. onRecordingActive c r) (startRecording p display user s) cs)))
        = Some (new_Blob cs (blobProperty p))"
  using startRecording_resets [of p display user s]
  by (auto simp: feed_chunks onRecordingStop_def stopRecording_def createObjectURL_def setters
      Let_def split: option.splits)

theorem startRecording_resets_buffer_and_url_witness:
  "(let p = default_props;
        a = \<lparr>content = ''first'', blob_type = ''audio/webm''\<rparr>;
        b = \<lparr>content = ''second'', blob_type = ''audio/webm''\<rparr>;
        s1 = startRecording p (Inl []) (Inr example_stream) initial;
        s2 = onRecordingStop p (stopRecording (onRecordingActive a s1));
        s3 = startRecording p (Inl []) (Inl []) s2;
        s4 = onRecordingStop p (stopRecording (foldl (\<lambda>r c. onRecordingActive c r) s3 [b]))
    in mediaBlobUrl s2 = Some 0 \<and> mediaChunks s2 = [a] \<and> mediaStream s3 \<noteq> None
       \<and> mediaChunks s3 = [] \<and> mediaBlobUrl s3 = None
       \<and> mediaBlob s4 = Some \<lparr>content = ''second'', blob_type = ''audio/wav''\<rparr>)"
  using startRecording_resets_buffer_and_url
      [of default_props "Inl []" "Inl []"
        "onRecordingStop default_props
           (stopRecording
              (onRecordingActive \<lparr>content = ''first'', blob_type = ''audio/webm''\<rparr>
                 (startRecording default_props (Inl []) (Inr example_stream) initial)))"
        "[\<lparr>content = ''second'', blob_type = ''audio/webm''\<rparr>]"]
  by (simp add: startRecording_def getMediaStream_def onRecordingActive_def stopRecording_def
      onRecordingStop_def createObjectURL_def new_Blob_def blobProperty_def default_props_def
      example_stream_def initial_def setters Let_def)

text \<open>
  When no \<^verbatim>\<open>blobPropertyBag\<close> is supplied, the blob made at the stop event is typed
  \<^verbatim>\<open>video/mp4\<close> if \<^verbatim>\<open>video\<close> is truthy and \<^verbatim>\<open>audio/wav\<close> otherwise, and its content is the
  buffered chunks concatenated in order. Both variants.
\<close>

theorem blob_type_without_bag:
  "blobPropertyBag p = None \<longrightarrow>
     map_option blob_type (mediaBlob (onRecordingStop p s))
       = Some (if truthy (video p) then ''video/mp4'' else ''audio/wav'')
     \<and> map_option blob_type (mediaBlob (onRecordingStop_hook p t))
       = Some (if truthy (video p) then ''video/mp4'' else ''audio/wav'')
     \<and> map_option content (mediaBlob (onRecordingStop p s))
       = Some (concat (map content (mediaChunks s)))
     \<and> map_option content (mediaBlob (onRecordingStop_hook p t))
       = Some (concat (map content (mediaChunks t)))"
  by (simp add: onRecordingStop_def onRecordingStop_hook_def createObjectURL_def new_Blob_def
      blobProperty_def setters Let_def)

theorem blob_type_without_bag_witness:
  "blobPropertyBag default_props = None
   \<and> map_option blob_type (mediaBlob (onRecordingStop default_props initial))
       = Some ''audio/wav''
   \<and> map_option blob_type
        (mediaBlob
           (onRecordingStop_hook (default_props\<lparr>video := Constraints []\<rparr>) initial_hook))
       = Some ''video/mp4''"
  using blob_type_without_bag [of default_props initial initial_hook]
    blob_type_without_bag [of "default_props\<lparr>video := Constraints []\<rparr>" initial initial_hook]
  by (simp add: default_props_def)

text \<open>
  The scenario of the spec, on the render-prop variant: audio only, the acquisition
  succeeds at setup, then start, two data chunks, stop and the recorder's stop event. The
  status goes through \<^verbatim>\<open>acquiring_media\<close>, \<^verbatim>\<open>idle\<close>, \<^verbatim>\<open>recording\<close>, \<^verbatim>\<open>stopping\<close>, \<^verbatim>\<open>stopped\<close>;
  \<^verbatim>\<open>onStop\<close> is called once, with the URL of the blob; the blob is typed \<^verbatim>\<open>audio/wav\<close> and
  holds both chunks.
\<close>

theorem audio_recording_scenario:
  "(let p = default_props\<lparr>audio := Flag True, video := Flag False\<rparr>
    in case useEffect p example_host (Inl [])
              (Inr [\<lparr>track_id = 0, kind = audio_track, enabled = True\<rparr>]) initial of
         Inl e \<Rightarrow> False
       | Inr s1 \<Rightarrow>
           (let s2 = startRecording p (Inl []) (Inl []) s1;
                s3 = onRecordingActive \<lparr>content = ''ab'', blob_type = ''audio/webm''\<rparr> s2;
                s4 = onRecordingActive \<lparr>content = ''cd'', blob_type = ''audio/webm''\<rparr> s3;
                s5 = stopRecording s4;
                s = onRecordingStop p s5
            in status_writes (trace s)
                 = [acquiring_media, idle, recording, stopping, stopped]
               \<and> status s = stopped
               \<and> onStop_calls (trace s) = [0] \<and> mediaBlobUrl s = Some 0
               \<and> objectURLs s = [\<lparr>content = ''abcd'', blob_type = ''audio/wav''\<rparr>]
               \<and> mediaBlob s = Some \<lparr>content = ''abcd'', blob_type = ''audio/wav''\<rparr>))"
  by (simp add: default_props_def example_host_def initial_def
      useEffect_def checkConstraints_def requested_mimeType_def getMediaStream_def
      startRecording_def stopRecording_def onRecordingActive_def onRecordingStop_def
      createObjectURL_def new_Blob_def blobProperty_def setters Let_def)

text \<open>
  A start without a stream makes exactly one acquisition, before recording begins: the
  status goes through \<^verbatim>\<open>acquiring_media\<close> and \<^verbatim>\<open>idle\<close> once, and then to \<^verbatim>\<open>recording\<close> if a
  stream was obtained. A start with a stream makes none. Render-prop variant.
\<close>

theorem startRecording_acquires_once:
  "status_writes (trace (startRecording p display user s)) =
     status_writes (trace s)
     @ (if mediaStream s = None then [acquiring_media, idle] else [])
     @ (if mediaStream (startRecording p display user s) \<noteq> None then [recording] else [])"
  using getMediaStream_status [of p display user "setError ''NONE'' s"]
  by (auto simp: startRecording_def Let_def setters status_writes_append split: option.splits)

end
